theory Spec2Isabelle
  imports Main "HOL-Library.Word"
begin

section \<open>Tracing adapters: HTTP and SQL spans over an OpenTracing tracer\<close>

text \<open>
  The package is glue over three collaborators that live outside it: the OpenTracing
  tracer (extract, start span, set tag, finish), the structured logger and the Jaeger
  configuration. The embedding keeps the adapters as the source writes them and records
  what they do to those collaborators in an explicit \<open>world\<close>: every span keeps the
  arguments it was started with and the ordered list of calls made on it, the logger
  keeps its entries, and the tracer registry keeps the installed tracer. A collaborator
  whose answer the adapters branch on (\<open>Extract\<close>, \<open>NewTracer\<close>, the route-template
  resolver) is a parameter, so every theorem holds for all of its behaviours.
\<close>

subsection \<open>Values of the Go standard library\<close>

text \<open>
  \<open>float64\<close> is carried as its IEEE-754 bit pattern: the package only copies it.
  Go's \<open>int\<close> is modelled by \<open>int\<close>: the package compares and prints status codes and
  ports and does no arithmetic on them.
\<close>

type_synonym float64 = "64 word"

text \<open>\<open>strconv.Itoa\<close> and the \<open>%d\<close> verb: base-10 digits, most significant first, a
  leading minus sign for a negative number.\<close>

definition digit :: "nat \<Rightarrow> char" where
  "digit d = ''0123456789'' ! (d mod 10)"

function FormatUint :: "nat \<Rightarrow> string" where
  "FormatUint n = (if n < 10 then [digit n] else FormatUint (n div 10) @ [digit n])"
  by pat_completeness auto
termination
  by (relation "measure id") auto

declare FormatUint.simps [simp del]

definition Itoa :: "int \<Rightarrow> string" where
  "Itoa i = (if i < 0 then CHR ''-'' # FormatUint (nat (- i)) else FormatUint (nat i))"

text \<open>\<open>http.StatusInternalServerError\<close>.\<close>

definition StatusInternalServerError :: int where
  "StatusInternalServerError = 500"

text \<open>\<open>io.Closer\<close> is an interface value: \<open>None\<close> is Go's \<open>nil\<close>. Calling a method on a
  nil interface value panics with a nil-pointer dereference.\<close>

datatype closer = Closer nat

datatype go_panic = NilPointerDereference

fun Closer_Close :: "closer option \<Rightarrow> go_panic + unit" where
  "Closer_Close None = Inl NilPointerDereference"
| "Closer_Close (Some c) = Inr ()"

subsection \<open>Spans, contexts and the tracer\<close>

datatype tag_value = TagString string | TagBool bool

text \<open>A span context either is Jaeger's (the type assertion
  \<open>span.Context().(jaeger.SpanContext)\<close> succeeds, and \<open>TraceID().String()\<close> is the
  string carried here) or belongs to another tracer.\<close>

datatype span_context = JaegerSpanContext string | ForeignSpanContext

text \<open>\<open>ext.RPCServerOption(wireContext)\<close>: the server-role start option with the
  client's span context, \<open>None\<close> for a nil context.\<close>

datatype start_option = RPCServerOption "span_context option"

datatype span_call = SetTag string tag_value | Finish

text \<open>A \<open>context.Context\<close> as far as the package uses it: the active span (a handle
  into the world's spans) and the fields of the logger it carries.\<close>

record Context =
  ctx_span :: "nat option"
  ctx_log_fields :: "(string \<times> string) list"

definition Background :: Context where
  "Background = \<lparr>ctx_span = None, ctx_log_fields = []\<rparr>"

record span =
  operationName :: string
  start_ctx :: Context
  start_opts :: "start_option list"
  span_Context :: span_context
  span_calls :: "span_call list"

type_synonym header = "(string \<times> string list) list"

text \<open>The tracer. \<open>Extract\<close> answers with Go's pair (span context, error), either of
  which may be nil. \<open>StartSpan_Context\<close> is the span context the tracer gives to a new
  span, from the arguments of the start call and the number of spans started so far.\<close>

record tracer =
  Extract :: "header \<Rightarrow> span_context option \<times> string option"
  StartSpan_Context :: "Context \<Rightarrow> string \<Rightarrow> start_option list \<Rightarrow> nat \<Rightarrow> span_context"

subsection \<open>Logger\<close>

datatype level = DebugLevel | InfoLevel | ErrorLevel

record log_entry =
  log_level :: level
  log_name :: string
  log_msg :: string
  log_fields :: "(string \<times> string) list"

subsection \<open>Status recorder, request, configuration\<close>

text \<open>Modelled from the spec: \<open>writer.StatusRecorder\<close> (package \<open>http/writer\<close>), the
  response-status observer that exposes the numeric status code of the response once
  it is written. The adapters hold a pointer to it: a key into the world's recorders.\<close>

record StatusRecorder =
  StatusCode :: int

text \<open>An \<open>http.Request\<close>: \<open>URL_String\<close> is what \<open>r.URL.String()\<close> returns.\<close>

record request =
  Method :: string
  URL_String :: string
  Header :: header
  req_Context :: Context

record Config =
  Enabled :: bool
  SamplerType :: string
  SamplerParam :: float64
  ReporterLogSpans :: bool
  ReporterMaxQueueSize :: int
  ReporterFlushInterval :: int
  AgentHost :: string
  AgentPort :: int
  ServiceName :: string

text \<open>The configuration structs of \<open>jaeger-client-go/config\<close>, with the fields the
  package fills in.\<close>

record SamplerConfig =
  sampler_Type :: string
  sampler_Param :: float64

record ReporterConfig =
  LogSpans :: bool
  QueueSize :: int
  BufferFlushInterval :: int
  LocalAgentHostPort :: string

record Configuration =
  cfg_ServiceName :: string
  Sampler :: SamplerConfig
  Reporter :: ReporterConfig
  Disabled :: bool

text \<open>\<open>jaeger.SamplerTypeConst\<close>, the constant-decision sampler.\<close>

definition SamplerTypeConst :: string where
  "SamplerTypeConst = ''const''"

text \<open>What \<open>Configuration.NewTracer\<close> returns: Go's triple (tracer, closer, error).\<close>

record NewTracer_result =
  nt_tracer :: tracer
  nt_closer :: "closer option"
  nt_err :: "string option"

subsection \<open>The world\<close>

record world =
  global_tracer :: tracer
  SetGlobalTracer_calls :: nat
  NewTracer_calls :: "Configuration list"
  spans :: "span list"
  log_entries :: "log_entry list"
  recorders :: "nat \<Rightarrow> StatusRecorder"

text \<open>\<open>opentracing.SetGlobalTracer\<close>.\<close>

definition SetGlobalTracer :: "tracer \<Rightarrow> world \<Rightarrow> world" where
  "SetGlobalTracer t w =
     w\<lparr>global_tracer := t, SetGlobalTracer_calls := Suc (SetGlobalTracer_calls w)\<rparr>"

text \<open>\<open>opentracing.StartSpanFromContext(ctx, name, opts...)\<close>: the global tracer starts
  a span, and the returned context is \<open>ctx\<close> with that span as its active span. The span
  is returned as its handle, the index of the new span in the world.\<close>

definition StartSpanFromContext ::
  "Context \<Rightarrow> string \<Rightarrow> start_option list \<Rightarrow> world \<Rightarrow> (nat \<times> Context) \<times> world" where
  "StartSpanFromContext ctx name opts w =
     (let h = length (spans w);
          s = \<lparr>operationName = name, start_ctx = ctx, start_opts = opts,
               span_Context = StartSpan_Context (global_tracer w) ctx name opts h,
               span_calls = []\<rparr>
      in ((h, ctx\<lparr>ctx_span := Some h\<rparr>), w\<lparr>spans := spans w @ [s]\<rparr>))"

text \<open>\<open>span.SetTag(key, value)\<close> records the tag and returns the receiver, as the
  interface documents; \<open>span.Finish()\<close> records the finish. The tracer gives a span
  that stays valid, so a handle outside the world's spans is never passed; the model
  leaves the world as it is there.\<close>

definition span_SetTag :: "nat \<Rightarrow> string \<Rightarrow> tag_value \<Rightarrow> world \<Rightarrow> nat \<times> world" where
  "span_SetTag h k v w =
     (h, if h < length (spans w)
         then w\<lparr>spans := (spans w)[h := (spans w ! h)\<lparr>span_calls := span_calls (spans w ! h) @ [SetTag k v]\<rparr>]\<rparr>
         else w)"

definition span_Finish :: "nat \<Rightarrow> world \<Rightarrow> world" where
  "span_Finish h w =
     (if h < length (spans w)
      then w\<lparr>spans := (spans w)[h := (spans w ! h)\<lparr>span_calls := span_calls (spans w ! h) @ [Finish]\<rparr>]\<rparr>
      else w)"

text \<open>\<open>span.Context()\<close>, with the type assertion to \<open>jaeger.SpanContext\<close> and
  \<open>TraceID().String()\<close> folded in: the trace identifier when the assertion succeeds.\<close>

definition jaeger_TraceID :: "nat \<Rightarrow> world \<Rightarrow> string option" where
  "jaeger_TraceID h w =
     (if h < length (spans w)
      then (case span_Context (spans w ! h) of
              JaegerSpanContext tid \<Rightarrow> Some tid
            | ForeignSpanContext \<Rightarrow> None)
      else None)"

text \<open>Modelled from the spec: the package \<open>log\<close> of this repository, a structured
  logger accessible via the request context that supports attaching named fields for
  the remainder of that context's lifetime. \<open>log_Get ctx\<close> is the logger of the context
  (its name and fields), \<open>Named\<close> sets the name, \<open>log_NewContext\<close> attaches fields, and
  a logging call appends one entry to the world's log.\<close>

record logger =
  logger_name :: string
  logger_fields :: "(string \<times> string) list"

definition log_Get :: "Context \<Rightarrow> logger" where
  "log_Get ctx = \<lparr>logger_name = [], logger_fields = ctx_log_fields ctx\<rparr>"

definition Named :: "string \<Rightarrow> logger \<Rightarrow> logger" where
  "Named n l = l\<lparr>logger_name := n\<rparr>"

definition log_NewContext :: "Context \<Rightarrow> (string \<times> string) list \<Rightarrow> Context" where
  "log_NewContext ctx fs = ctx\<lparr>ctx_log_fields := ctx_log_fields ctx @ fs\<rparr>"

definition logger_log :: "level \<Rightarrow> logger \<Rightarrow> string \<Rightarrow> (string \<times> string) list \<Rightarrow> world \<Rightarrow> world" where
  "logger_log lv l msg fs w =
     w\<lparr>log_entries := log_entries w @
          [\<lparr>log_level = lv, log_name = logger_name l, log_msg = msg,
            log_fields = logger_fields l @ fs\<rparr>]\<rparr>"

text \<open>\<open>zap.Error(err)\<close>: the field \<open>error\<close> with the error's message.\<close>

definition zap_Error :: "string \<Rightarrow> string \<times> string" where
  "zap_Error err = (''error'', err)"

subsection \<open>ConfigureTracer\<close>

text \<open>The first part of \<open>ConfigureTracer\<close>: the Jaeger configuration it builds. The
  receiver \<open>c\<close> is a copy, so the default sampler type is written to the copy only.
  \<open>fmt.Sprintf("%s:%d", host, port)\<close> is the host, a colon and the port in decimal.\<close>

definition jaegerConfig :: "Config \<Rightarrow> Configuration" where
  "jaegerConfig c0 =
     (let c = (if SamplerType c0 = [] then c0\<lparr>SamplerType := SamplerTypeConst\<rparr> else c0);
          samplerConfig = \<lparr>sampler_Type = SamplerType c, sampler_Param = SamplerParam c\<rparr>;
          reporterConfig = \<lparr>LogSpans = ReporterLogSpans c,
                            QueueSize = ReporterMaxQueueSize c,
                            BufferFlushInterval = ReporterFlushInterval c,
                            LocalAgentHostPort = AgentHost c @ '':'' @ Itoa (AgentPort c)\<rparr>
      in \<lparr>cfg_ServiceName = ServiceName c,
          Sampler = samplerConfig,
          Reporter = reporterConfig,
          Disabled = (\<not> Enabled c)\<rparr>)"

text \<open>\<open>NewTracer\<close> is Jaeger's constructor, a parameter; the call is recorded in the
  world with the configuration it was given. On an error the function returns \<open>nil\<close>
  before it reaches \<open>SetGlobalTracer\<close>.\<close>

definition ConfigureTracer ::
  "(Configuration \<Rightarrow> NewTracer_result) \<Rightarrow> Config \<Rightarrow> world \<Rightarrow> closer option \<times> world" where
  "ConfigureTracer NewTracer c w =
     (let lg = Named ''jaeger'' (log_Get Background);
          res = NewTracer (jaegerConfig c);
          w1 = w\<lparr>NewTracer_calls := NewTracer_calls w @ [jaegerConfig c]\<rparr>
      in case nt_err res of
           Some err \<Rightarrow>
             (None, logger_log ErrorLevel lg ''Couldn't initialize Jaeger tracer'' [zap_Error err] w1)
         | None \<Rightarrow>
             (let w2 = (if \<not> Enabled c
                        then logger_log InfoLevel lg ''Jaeger tracer configured but disabled'' [] w1
                        else logger_log InfoLevel lg ''Configured Jaeger tracer'' [] w1);
                  w3 = SetGlobalTracer (nt_tracer res) w2
              in (nt_closer res, w3)))"

subsection \<open>Middleware (tracing.go) and HTTPMiddleware\<close>

text \<open>The finish closure reads \<open>sr.StatusCode\<close> when it is invoked, from the recorder
  the pointer \<open>sr\<close> refers to in the world of that moment.\<close>

definition Middleware_finish :: "nat \<Rightarrow> nat \<Rightarrow> world \<Rightarrow> world" where
  "Middleware_finish span sr w =
     (let w1 = snd (span_SetTag span ''http.status_code''
                      (TagString (Itoa (StatusCode (recorders w sr)))) w);
          w2 = (if StatusCode (recorders w1 sr) \<ge> StatusInternalServerError
                then snd (span_SetTag span ''error'' (TagBool True) w1)
                else w1)
      in span_Finish span w2)"

text \<open>\<open>FetchRoutePathTemplate\<close> is \<open>writer.FetchRoutePathTemplate\<close>, the route-template
  resolver of package \<open>http/writer\<close>, a parameter.\<close>

definition Middleware ::
  "(request \<Rightarrow> string) \<Rightarrow> nat \<Rightarrow> request \<Rightarrow> world \<Rightarrow> ((world \<Rightarrow> world) \<times> request) \<times> world" where
  "Middleware FetchRoutePathTemplate sr r w =
     (let (wireContext, err) = Extract (global_tracer w) (Header r);
          w1 = (if err \<noteq> None
                then logger_log DebugLevel (log_Get (req_Context r))
                       ''failed to extract opentracing context on an incoming http request'' [] w
                else w);
          ((span, spanCtx), w2) =
             StartSpanFromContext (req_Context r) (FetchRoutePathTemplate r)
               [RPCServerOption wireContext] w1;
          (span, w3) = span_SetTag span ''http.method'' (TagString (Method r)) w2;
          (span, w4) = span_SetTag span ''http.url'' (TagString (URL_String r)) w3;
          spanCtx = (case jaeger_TraceID span w4 of
                       Some tid \<Rightarrow> log_NewContext spanCtx [(''trace_id'', tid)]
                     | None \<Rightarrow> spanCtx)
      in ((Middleware_finish span sr, r\<lparr>req_Context := spanCtx\<rparr>), w4))"

definition HTTPMiddleware_finish :: "nat \<Rightarrow> nat \<Rightarrow> world \<Rightarrow> world" where
  "HTTPMiddleware_finish span sr w =
     (let w1 = snd (span_SetTag span ''http.status_code''
                      (TagString (Itoa (StatusCode (recorders w sr)))) w);
          w2 = (if StatusCode (recorders w1 sr) \<ge> StatusInternalServerError
                then snd (span_SetTag span ''error'' (TagBool True) w1)
                else w1)
      in span_Finish span w2)"

definition HTTPMiddleware ::
  "(request \<Rightarrow> string) \<Rightarrow> nat \<Rightarrow> request \<Rightarrow> world \<Rightarrow> ((world \<Rightarrow> world) \<times> request) \<times> world" where
  "HTTPMiddleware FetchRoutePathTemplate sr r w =
     (let (wireContext, err) = Extract (global_tracer w) (Header r);
          w1 = (if err \<noteq> None
                then logger_log DebugLevel (log_Get (req_Context r))
                       ''failed to extract opentracing context on an incoming http request'' [] w
                else w);
          ((span, spanCtx), w2) =
             StartSpanFromContext (req_Context r) (FetchRoutePathTemplate r)
               [RPCServerOption wireContext] w1;
          (span, w3) = span_SetTag span ''http.method'' (TagString (Method r)) w2;
          (span, w4) = span_SetTag span ''http.url'' (TagString (URL_String r)) w3;
          spanCtx = (case jaeger_TraceID span w4 of
                       Some tid \<Rightarrow> log_NewContext spanCtx [(''correlation_id'', tid)]
                     | None \<Rightarrow> spanCtx)
      in ((HTTPMiddleware_finish span sr, r\<lparr>req_Context := spanCtx\<rparr>), w4))"

subsection \<open>SQLMiddleware\<close>

text \<open>Modelled from the spec: \<open>sql.MiddlewareEnd\<close> (package \<open>sql/middleware\<close>), the
  end-hook invoked after execution with the context, the query name, the query text,
  the query's error result and its arguments, returning a context and an error.\<close>

type_synonym 'a MiddlewareEnd =
  "Context \<Rightarrow> string \<Rightarrow> string \<Rightarrow> string option \<Rightarrow> 'a list \<Rightarrow> world \<Rightarrow> (Context \<times> string option) \<times> world"

text \<open>The end closure. \<open>defer span.Finish()\<close> fixes the receiver when the \<open>defer\<close>
  statement runs and calls \<open>Finish\<close> when the body has returned, after the return
  values are set. \<open>span = span.SetTag(...)\<close> assigns the receiver back to the captured
  variable.\<close>

definition mwEnd :: "nat \<Rightarrow> 'a MiddlewareEnd" where
  "mwEnd span ctx queryName query queryErr args w =
     (let deferred = span_Finish span;
          (span, w1) = (if queryErr \<noteq> None
                        then span_SetTag span ''error'' (TagBool True) w
                        else (span, w));
          ret = (ctx, None)
      in (ret, deferred w1))"

definition SQLMiddleware ::
  "Context \<Rightarrow> string \<Rightarrow> string \<Rightarrow> 'a list \<Rightarrow> world \<Rightarrow> (Context \<times> 'a MiddlewareEnd \<times> string option) \<times> world" where
  "SQLMiddleware ctx queryName query args w =
     (let spanName = ''db'';
          spanName = (if queryName \<noteq> [] then spanName @ ''_'' @ queryName else spanName);
          ((span, spanCtx), w1) = StartSpanFromContext ctx spanName [] w;
          (span, w2) = span_SetTag span ''component'' (TagString ''tracing'') w1;
          (span, w3) = span_SetTag span ''db.type'' (TagString ''sql'') w2;
          (span, w4) = span_SetTag span ''db.statement'' (TagString query) w3
      in ((spanCtx, mwEnd span, None), w4))"

text \<open>The end closure again, over a span whose \<open>SetTag\<close> may panic: \<open>panics k v\<close> says
  that setting tag \<open>k\<close> to \<open>v\<close> panics, in which case nothing is recorded. Go runs a
  deferred call when the function returns and also when it panics, before the panic
  goes on to the caller, so \<open>Finish\<close> is applied to the world of either outcome.
  \<open>mwEnd\<close> above is this closure for a span whose \<open>SetTag\<close> never panics.\<close>

datatype 'a outcome = Returned 'a | Panicked

definition span_SetTag_or_panic ::
  "(string \<Rightarrow> tag_value \<Rightarrow> bool) \<Rightarrow> nat \<Rightarrow> string \<Rightarrow> tag_value \<Rightarrow> world \<Rightarrow> nat outcome \<times> world" where
  "span_SetTag_or_panic panics h k v w =
     (if panics k v then (Panicked, w)
      else (Returned (fst (span_SetTag h k v w)), snd (span_SetTag h k v w)))"

definition mwEnd_or_panic ::
  "(string \<Rightarrow> tag_value \<Rightarrow> bool) \<Rightarrow> nat \<Rightarrow> Context \<Rightarrow> string \<Rightarrow> string \<Rightarrow> string option \<Rightarrow> 'a list \<Rightarrow> world
     \<Rightarrow> (Context \<times> string option) outcome \<times> world" where
  "mwEnd_or_panic panics span ctx queryName query queryErr args w =
     (let deferred = span_Finish span;
          (out, w1) = (if queryErr \<noteq> None
                       then (case span_SetTag_or_panic panics span ''error'' (TagBool True) w of
                               (Returned span', w') \<Rightarrow> (Returned (ctx, None), w')
                             | (Panicked, w') \<Rightarrow> (Panicked, w'))
                       else (Returned (ctx, None), w))
      in (out, deferred w1))"

subsection \<open>The span an inbound adapter starts\<close>

text \<open>The span as both inbound adapters leave it when they return: named after the
  route template, started from the request's context with the server-role option
  around whatever context \<open>Extract\<close> returned, and tagged with method and URL.\<close>

definition http_span :: "(request \<Rightarrow> string) \<Rightarrow> request \<Rightarrow> world \<Rightarrow> span" where
  "http_span f r w =
     \<lparr>operationName = f r, start_ctx = req_Context r,
      start_opts = [RPCServerOption (fst (Extract (global_tracer w) (Header r)))],
      span_Context = StartSpan_Context (global_tracer w) (req_Context r) (f r)
                       [RPCServerOption (fst (Extract (global_tracer w) (Header r)))]
                       (length (spans w)),
      span_calls = [SetTag ''http.method'' (TagString (Method r)),
                    SetTag ''http.url'' (TagString (URL_String r))]\<rparr>"

subsection \<open>Concrete collaborators and inputs\<close>

text \<open>A tracer that finds no span context in any carrier and whose spans are not
  Jaeger's, as \<open>opentracing.NoopTracer\<close>.\<close>

definition NoopTracer :: tracer where
  "NoopTracer =
     \<lparr>Extract = (\<lambda>h. (None, Some ''opentracing: SpanContext not found in Extract carrier'')),
      StartSpan_Context = (\<lambda>ctx name opts n. ForeignSpanContext)\<rparr>"

text \<open>A tracer with Jaeger span contexts: it extracts the trace identifier from the
  header \<open>Uber-Trace-Id\<close>, continues the client's trace when the server-role option
  carries one, and otherwise names a new trace after the number of the span.\<close>

definition example_JaegerTracer :: tracer where
  "example_JaegerTracer =
     \<lparr>Extract = (\<lambda>h. case map_of h ''Uber-Trace-Id'' of
                         Some (v # vs) \<Rightarrow> (Some (JaegerSpanContext v), None)
                       | _ \<Rightarrow> (None, Some ''opentracing: SpanContext not found in Extract carrier'')),
      StartSpan_Context = (\<lambda>ctx name opts n. case opts of
                         [RPCServerOption (Some c)] \<Rightarrow> c
                       | _ \<Rightarrow> JaegerSpanContext (Itoa (int n)))\<rparr>"

definition example_world :: "tracer \<Rightarrow> int \<Rightarrow> world" where
  "example_world t code =
     \<lparr>global_tracer = t, SetGlobalTracer_calls = 0, NewTracer_calls = [], spans = [],
      log_entries = [], recorders = (\<lambda>sr. \<lparr>StatusCode = code\<rparr>)\<rparr>"

definition example_request :: request where
  "example_request =
     \<lparr>Method = ''GET'', URL_String = ''/widgets/42'', Header = [],
      req_Context = Background\<rparr>"

definition example_route :: "request \<Rightarrow> string" where
  "example_route r = ''/widgets/{id}''"

definition example_Config :: Config where
  "example_Config =
     \<lparr>Enabled = True, SamplerType = [], SamplerParam = 1, ReporterLogSpans = False,
      ReporterMaxQueueSize = 100, ReporterFlushInterval = 1000000000,
      AgentHost = ''localhost'', AgentPort = 6831, ServiceName = ''widgets''\<rparr>"

definition example_NewTracer_fails :: "Configuration \<Rightarrow> NewTracer_result" where
  "example_NewTracer_fails cfg =
     \<lparr>nt_tracer = NoopTracer, nt_closer = None, nt_err = Some ''no service name provided''\<rparr>"

definition example_NewTracer_ok :: "Configuration \<Rightarrow> NewTracer_result" where
  "example_NewTracer_ok cfg =
     \<lparr>nt_tracer = example_JaegerTracer, nt_closer = Some (Closer 0), nt_err = None\<rparr>"

text \<open>The same request carrying a propagated trace in its headers.\<close>

definition example_traced_request :: request where
  "example_traced_request =
     \<lparr>Method = ''GET'', URL_String = ''/widgets/42'',
      Header = [(''Uber-Trace-Id'', [''4bf92f3577b34da6''])],
      req_Context = Background\<rparr>"

text \<open>A tracer whose \<open>Extract\<close> hands back an empty span context of its own together
  with the error, instead of a nil context.\<close>

definition example_StaleContextTracer :: tracer where
  "example_StaleContextTracer =
     \<lparr>Extract = (\<lambda>h. (Some (JaegerSpanContext ''0000000000000000''),
                       Some ''opentracing: SpanContext not found in Extract carrier'')),
      StartSpan_Context = (\<lambda>ctx name opts n. JaegerSpanContext (Itoa (int n)))\<rparr>"

section \<open>Span bookkeeping\<close>

lemma length_spans_SetTag [simp]: "length (spans (snd (span_SetTag h k v w))) = length (spans w)"
  by (simp add: span_SetTag_def)

lemma length_spans_Finish [simp]: "length (spans (span_Finish h w)) = length (spans w)"
  by (simp add: span_Finish_def)

lemma recorders_SetTag [simp]: "recorders (snd (span_SetTag h k v w)) = recorders w"
  by (simp add: span_SetTag_def)

lemma calls_SetTag:
  "h < length (spans w) \<Longrightarrow>
   span_calls (spans (snd (span_SetTag h k v w)) ! h) = span_calls (spans w ! h) @ [SetTag k v]"
  by (simp add: span_SetTag_def)

lemma calls_Finish:
  "h < length (spans w) \<Longrightarrow>
   span_calls (spans (span_Finish h w) ! h) = span_calls (spans w ! h) @ [Finish]"
  by (simp add: span_Finish_def)

lemma Middleware_returns_finish:
  "fst (fst (Middleware f sr r w)) = Middleware_finish (length (spans w)) sr"
  by (simp add: Middleware_def StartSpanFromContext_def span_SetTag_def logger_log_def Let_def split_def)

lemma HTTPMiddleware_returns_finish:
  "fst (fst (HTTPMiddleware f sr r w)) = HTTPMiddleware_finish (length (spans w)) sr"
  by (simp add: HTTPMiddleware_def StartSpanFromContext_def span_SetTag_def logger_log_def Let_def split_def)

lemma Middleware_finish_calls:
  "h < length (spans w2) \<Longrightarrow>
   span_calls (spans (Middleware_finish h sr w2) ! h) =
     span_calls (spans w2 ! h) @
     SetTag ''http.status_code'' (TagString (Itoa (StatusCode (recorders w2 sr)))) #
     (if 500 \<le> StatusCode (recorders w2 sr) then [SetTag ''error'' (TagBool True)] else []) @
     [Finish]"
  by (simp add: Middleware_finish_def Let_def calls_Finish calls_SetTag StatusInternalServerError_def)

lemma HTTPMiddleware_finish_calls:
  "h < length (spans w2) \<Longrightarrow>
   span_calls (spans (HTTPMiddleware_finish h sr w2) ! h) =
     span_calls (spans w2 ! h) @
     SetTag ''http.status_code'' (TagString (Itoa (StatusCode (recorders w2 sr)))) #
     (if 500 \<le> StatusCode (recorders w2 sr) then [SetTag ''error'' (TagBool True)] else []) @
     [Finish]"
  by (simp add: HTTPMiddleware_finish_def Let_def calls_Finish calls_SetTag StatusInternalServerError_def)

lemma HTTPMiddleware_spans:
  "spans (snd (HTTPMiddleware f sr r w)) = spans w @ [http_span f r w]"
  by (simp add: HTTPMiddleware_def StartSpanFromContext_def span_SetTag_def logger_log_def
      Let_def split_def http_span_def)

lemma Middleware_spans:
  "spans (snd (Middleware f sr r w)) = spans w @ [http_span f r w]"
  by (simp add: Middleware_def StartSpanFromContext_def span_SetTag_def logger_log_def
      Let_def split_def http_span_def)

lemma HTTPMiddleware_recorders [simp]:
  "recorders (snd (HTTPMiddleware f sr r w)) = recorders w"
  by (simp add: HTTPMiddleware_def StartSpanFromContext_def span_SetTag_def logger_log_def
      Let_def split_def)

lemma Middleware_recorders [simp]:
  "recorders (snd (Middleware f sr r w)) = recorders w"
  by (simp add: Middleware_def StartSpanFromContext_def span_SetTag_def logger_log_def
      Let_def split_def)

lemma HTTPMiddleware_log_entries:
  "log_entries (snd (HTTPMiddleware f sr r w)) =
     log_entries w @
     (if snd (Extract (global_tracer w) (Header r)) \<noteq> None
      then [\<lparr>log_level = DebugLevel, log_name = [],
              log_msg = ''failed to extract opentracing context on an incoming http request'',
              log_fields = ctx_log_fields (req_Context r)\<rparr>]
      else [])"
  by (simp add: HTTPMiddleware_def StartSpanFromContext_def span_SetTag_def logger_log_def
      log_Get_def Let_def split_def)

lemma Middleware_log_entries:
  "log_entries (snd (Middleware f sr r w)) =
     log_entries w @
     (if snd (Extract (global_tracer w) (Header r)) \<noteq> None
      then [\<lparr>log_level = DebugLevel, log_name = [],
              log_msg = ''failed to extract opentracing context on an incoming http request'',
              log_fields = ctx_log_fields (req_Context r)\<rparr>]
      else [])"
  by (simp add: Middleware_def StartSpanFromContext_def span_SetTag_def logger_log_def
      log_Get_def Let_def split_def)

lemma Middleware_world_eq:
  "snd (Middleware f sr r w) = snd (HTTPMiddleware f sr r w)"
  by (simp add: Middleware_def HTTPMiddleware_def Let_def split_def)

lemma finish_eq: "Middleware_finish = HTTPMiddleware_finish"
  by (intro ext) (simp add: Middleware_finish_def HTTPMiddleware_finish_def)

lemma jaeger_TraceID_new_span:
  "jaeger_TraceID (length (spans w)) (snd (HTTPMiddleware f sr r w)) =
     (case span_Context (http_span f r w) of
        JaegerSpanContext tid \<Rightarrow> Some tid | ForeignSpanContext \<Rightarrow> None)"
  by (simp add: jaeger_TraceID_def HTTPMiddleware_spans)

lemma HTTPMiddleware_request:
  "snd (fst (HTTPMiddleware f sr r w)) =
     r\<lparr>req_Context :=
         \<lparr>ctx_span = Some (length (spans w)),
          ctx_log_fields = ctx_log_fields (req_Context r) @
            (case jaeger_TraceID (length (spans w)) (snd (HTTPMiddleware f sr r w)) of
               Some tid \<Rightarrow> [(''correlation_id'', tid)] | None \<Rightarrow> [])\<rparr>\<rparr>"
  by (simp add: jaeger_TraceID_new_span, simp add: HTTPMiddleware_def StartSpanFromContext_def span_SetTag_def logger_log_def
      log_NewContext_def jaeger_TraceID_def http_span_def Let_def split_def
      split: span_context.splits)

lemma Middleware_request:
  "snd (fst (Middleware f sr r w)) =
     r\<lparr>req_Context :=
         \<lparr>ctx_span = Some (length (spans w)),
          ctx_log_fields = ctx_log_fields (req_Context r) @
            (case jaeger_TraceID (length (spans w)) (snd (HTTPMiddleware f sr r w)) of
               Some tid \<Rightarrow> [(''trace_id'', tid)] | None \<Rightarrow> [])\<rparr>\<rparr>"
  by (simp add: jaeger_TraceID_new_span, simp add: Middleware_def StartSpanFromContext_def span_SetTag_def logger_log_def
      log_NewContext_def jaeger_TraceID_def http_span_def Let_def split_def
      split: span_context.splits)

lemma SQLMiddleware_spans:
  "spans (snd (SQLMiddleware ctx queryName query args w)) =
     spans w @
     [\<lparr>operationName = (if queryName \<noteq> [] then ''db_'' @ queryName else ''db''),
       start_ctx = ctx, start_opts = [],
       span_Context = StartSpan_Context (global_tracer w) ctx
                        (if queryName \<noteq> [] then ''db_'' @ queryName else ''db'') []
                        (length (spans w)),
       span_calls = [SetTag ''component'' (TagString ''tracing''),
                     SetTag ''db.type'' (TagString ''sql''),
                     SetTag ''db.statement'' (TagString query)]\<rparr>]"
  by (simp add: SQLMiddleware_def StartSpanFromContext_def span_SetTag_def Let_def split_def)

lemma SQLMiddleware_returns_end:
  "fst (snd (fst (SQLMiddleware ctx queryName query args w))) = mwEnd (length (spans w))"
  by (simp add: SQLMiddleware_def StartSpanFromContext_def span_SetTag_def Let_def split_def)

lemma mwEnd_calls:
  "h < length (spans w2) \<Longrightarrow>
   span_calls (spans (snd (mwEnd h ctx2 queryName2 query2 queryErr args2 w2)) ! h) =
     span_calls (spans w2 ! h) @
     (if queryErr \<noteq> None then [SetTag ''error'' (TagBool True)] else []) @ [Finish]"
  by (simp add: mwEnd_def Let_def split_def calls_Finish calls_SetTag)

lemma mwEnd_or_panic_calls:
  "h < length (spans w2) \<Longrightarrow>
   span_calls (spans (snd (mwEnd_or_panic panics h ctx2 queryName2 query2 queryErr args2 w2)) ! h) =
     span_calls (spans w2 ! h) @
     (if queryErr \<noteq> None \<and> \<not> panics ''error'' (TagBool True)
      then [SetTag ''error'' (TagBool True)] else []) @ [Finish]"
  by (simp add: mwEnd_or_panic_def span_SetTag_or_panic_def Let_def split_def calls_Finish calls_SetTag)

lemma mwEnd_or_panic_outcome:
  "fst (mwEnd_or_panic panics h ctx2 queryName2 query2 queryErr args2 w2) =
     (if queryErr \<noteq> None \<and> panics ''error'' (TagBool True) then Panicked
      else Returned (ctx2, None))"
  by (simp add: mwEnd_or_panic_def span_SetTag_or_panic_def Let_def split_def)

lemma mwEnd_or_panic_never:
  "mwEnd_or_panic (\<lambda>k v. False) h ctx2 queryName2 query2 queryErr args2 w2 =
     (Returned (fst (mwEnd h ctx2 queryName2 query2 queryErr args2 w2)),
      snd (mwEnd h ctx2 queryName2 query2 queryErr args2 w2))"
  by (simp add: mwEnd_or_panic_def span_SetTag_or_panic_def mwEnd_def Let_def split_def)

lemma length_spans_mwEnd [simp]:
  "length (spans (snd (mwEnd h ctx2 queryName2 query2 queryErr args2 w2))) = length (spans w2)"
  by (simp add: mwEnd_def Let_def split_def)

lemma ConfigureTracer_failure:
  "nt_err (NewTracer (jaegerConfig c)) = Some err \<Longrightarrow>
   ConfigureTracer NewTracer c w =
     (None, w\<lparr>NewTracer_calls := NewTracer_calls w @ [jaegerConfig c],
              log_entries := log_entries w @
                [\<lparr>log_level = ErrorLevel, log_name = ''jaeger'',
                  log_msg = ''Couldn't initialize Jaeger tracer'',
                  log_fields = [(''error'', err)]\<rparr>]\<rparr>)"
  by (simp add: ConfigureTracer_def logger_log_def Named_def log_Get_def Background_def
      zap_Error_def Let_def)

lemma ConfigureTracer_success:
  "nt_err (NewTracer (jaegerConfig c)) = None \<Longrightarrow>
   ConfigureTracer NewTracer c w =
     (nt_closer (NewTracer (jaegerConfig c)),
      w\<lparr>NewTracer_calls := NewTracer_calls w @ [jaegerConfig c],
        log_entries := log_entries w @
          [\<lparr>log_level = InfoLevel, log_name = ''jaeger'',
            log_msg = (if \<not> Enabled c then ''Jaeger tracer configured but disabled''
                       else ''Configured Jaeger tracer''),
            log_fields = []\<rparr>],
        global_tracer := nt_tracer (NewTracer (jaegerConfig c)),
        SetGlobalTracer_calls := Suc (SetGlobalTracer_calls w)\<rparr>)"
  by (simp add: ConfigureTracer_def logger_log_def Named_def log_Get_def Background_def
      SetGlobalTracer_def Let_def)

lemma ConfigureTracer_calls_NewTracer:
  "NewTracer_calls (snd (ConfigureTracer NewTracer c w)) = NewTracer_calls w @ [jaegerConfig c]"
  by (cases "nt_err (NewTracer (jaegerConfig c))")
     (simp_all add: ConfigureTracer_failure ConfigureTracer_success)

section \<open>Inbound HTTP adapters\<close>

text \<open>
  C1. The finish function returned by either inbound adapter, invoked in any world \<open>w2\<close>
  in which the span it started still exists, makes exactly these calls on that span, in
  this order: \<open>SetTag "http.status_code"\<close> with \<open>strconv.Itoa\<close> of the status code the
  recorder holds at that moment; \<open>SetTag "error" true\<close> if and only if that code is at
  least 500 (so the error tag is not touched for a code below 500); \<open>Finish\<close>.
\<close>

theorem http_finish_tags_status:
  assumes "length (spans w) < length (spans w2)"
  shows "span_calls (spans (fst (fst (HTTPMiddleware f sr r w)) w2) ! length (spans w)) =
           span_calls (spans w2 ! length (spans w)) @
           SetTag ''http.status_code'' (TagString (Itoa (StatusCode (recorders w2 sr)))) #
           (if 500 \<le> StatusCode (recorders w2 sr) then [SetTag ''error'' (TagBool True)] else []) @
           [Finish]
       \<and> span_calls (spans (fst (fst (Middleware f sr r w)) w2) ! length (spans w)) =
           span_calls (spans w2 ! length (spans w)) @
           SetTag ''http.status_code'' (TagString (Itoa (StatusCode (recorders w2 sr)))) #
           (if 500 \<le> StatusCode (recorders w2 sr) then [SetTag ''error'' (TagBool True)] else []) @
           [Finish]"
  using assms
  by (simp add: HTTPMiddleware_returns_finish Middleware_returns_finish
      HTTPMiddleware_finish_calls Middleware_finish_calls)

lemma Itoa_503: "Itoa 503 = ''503''" by code_simp

theorem http_finish_tags_status_witness:
  "length (spans (example_world NoopTracer 503))
     < length (spans (snd (HTTPMiddleware example_route 0 example_request (example_world NoopTracer 503))))
   \<and> span_calls (spans (fst (fst (HTTPMiddleware example_route 0 example_request (example_world NoopTracer 503)))
        (snd (HTTPMiddleware example_route 0 example_request (example_world NoopTracer 503)))) ! 0) =
       [SetTag ''http.method'' (TagString ''GET''), SetTag ''http.url'' (TagString ''/widgets/42''),
        SetTag ''http.status_code'' (TagString ''503''), SetTag ''error'' (TagBool True), Finish]"
  using http_finish_tags_status [of "example_world NoopTracer 503"
      "snd (HTTPMiddleware example_route 0 example_request (example_world NoopTracer 503))"
      example_route 0 example_request]
  by (simp add: HTTPMiddleware_spans http_span_def example_world_def example_request_def Itoa_503)

text \<open>
  C5 as stated fails on the parent: the adapters branch on the error alone and pass the
  context \<open>Extract\<close> returned on to the start call as it is. With a tracer that returns
  a context together with the error, the span is started with that context in its
  server-role option.
\<close>

theorem extraction_error_with_context_gives_parent:
  "snd (Extract (global_tracer (example_world example_StaleContextTracer 200)) (Header example_request))
     = Some ''opentracing: SpanContext not found in Extract carrier''
   \<and> start_opts (spans (snd (HTTPMiddleware example_route 0 example_request
                               (example_world example_StaleContextTracer 200))) ! 0)
       = [RPCServerOption (Some (JaegerSpanContext ''0000000000000000''))]
   \<and> start_opts (spans (snd (Middleware example_route 0 example_request
                               (example_world example_StaleContextTracer 200))) ! 0)
       = [RPCServerOption (Some (JaegerSpanContext ''0000000000000000''))]
   \<and> start_opts (spans (snd (HTTPMiddleware example_route 0 example_request
                               (example_world example_StaleContextTracer 200))) ! 0)
       \<noteq> [RPCServerOption None]"
  by (simp add: HTTPMiddleware_spans Middleware_spans http_span_def example_world_def
      example_StaleContextTracer_def)

text \<open>
  C5, amended. On a request for which \<open>Extract\<close> returns an error, either adapter
  appends one debug entry to the log, starts one new span whose server-role option
  carries exactly the context \<open>Extract\<close> returned with the error (so no parent context
  when that context is nil), and returns both of its results: the finish closure for
  that span and the request whose context has the new span as its active span. The
  adapters have no error result and each is a total function, so nothing is raised.
\<close>

theorem extraction_error_forwards_returned_context:
  assumes "snd (Extract (global_tracer w) (Header r)) = Some e"
  shows "log_entries (snd (HTTPMiddleware f sr r w)) =
           log_entries w @
           [\<lparr>log_level = DebugLevel, log_name = [],
             log_msg = ''failed to extract opentracing context on an incoming http request'',
             log_fields = ctx_log_fields (req_Context r)\<rparr>]
       \<and> length (spans (snd (HTTPMiddleware f sr r w))) = Suc (length (spans w))
       \<and> start_opts (spans (snd (HTTPMiddleware f sr r w)) ! length (spans w))
           = [RPCServerOption (fst (Extract (global_tracer w) (Header r)))]
       \<and> (fst (Extract (global_tracer w) (Header r)) = None \<longrightarrow>
            start_opts (spans (snd (HTTPMiddleware f sr r w)) ! length (spans w))
              = [RPCServerOption None])
       \<and> fst (fst (HTTPMiddleware f sr r w)) = HTTPMiddleware_finish (length (spans w)) sr
       \<and> ctx_span (req_Context (snd (fst (HTTPMiddleware f sr r w)))) = Some (length (spans w))
       \<and> log_entries (snd (Middleware f sr r w)) =
           log_entries w @
           [\<lparr>log_level = DebugLevel, log_name = [],
             log_msg = ''failed to extract opentracing context on an incoming http request'',
             log_fields = ctx_log_fields (req_Context r)\<rparr>]
       \<and> length (spans (snd (Middleware f sr r w))) = Suc (length (spans w))
       \<and> start_opts (spans (snd (Middleware f sr r w)) ! length (spans w))
           = [RPCServerOption (fst (Extract (global_tracer w) (Header r)))]
       \<and> (fst (Extract (global_tracer w) (Header r)) = None \<longrightarrow>
            start_opts (spans (snd (Middleware f sr r w)) ! length (spans w))
              = [RPCServerOption None])
       \<and> fst (fst (Middleware f sr r w)) = Middleware_finish (length (spans w)) sr
       \<and> ctx_span (req_Context (snd (fst (Middleware f sr r w)))) = Some (length (spans w))"
  using assms
  by (simp add: HTTPMiddleware_log_entries Middleware_log_entries HTTPMiddleware_spans
      Middleware_spans http_span_def HTTPMiddleware_returns_finish Middleware_returns_finish
      HTTPMiddleware_request Middleware_request)

theorem extraction_error_forwards_returned_context_witness:
  "snd (Extract (global_tracer (example_world NoopTracer 200)) (Header example_request))
     = Some ''opentracing: SpanContext not found in Extract carrier''
   \<and> fst (Extract (global_tracer (example_world NoopTracer 200)) (Header example_request)) = None
   \<and> log_entries (snd (HTTPMiddleware example_route 0 example_request (example_world NoopTracer 200))) =
       [\<lparr>log_level = DebugLevel, log_name = [],
         log_msg = ''failed to extract opentracing context on an incoming http request'',
         log_fields = []\<rparr>]
   \<and> start_opts (spans (snd (HTTPMiddleware example_route 0 example_request
                               (example_world NoopTracer 200))) ! 0) = [RPCServerOption None]"
  using extraction_error_forwards_returned_context [of "example_world NoopTracer 200"
      example_request "''opentracing: SpanContext not found in Extract carrier''" example_route 0]
  by (simp add: example_world_def example_request_def NoopTracer_def Background_def)

text \<open>
  C9 as stated fails on the field name: for a request that continues the Jaeger trace
  \<open>4bf92f3577b34da6\<close>, \<open>Middleware\<close> attaches the identifier to the logging context as
  \<open>trace_id\<close> and \<open>HTTPMiddleware\<close> as \<open>correlation_id\<close>, so the returned requests
  differ.
\<close>

theorem adapters_log_field_names_differ:
  "ctx_log_fields (req_Context (snd (fst (Middleware example_route 0 example_traced_request
       (example_world example_JaegerTracer 200))))) = [(''trace_id'', ''4bf92f3577b34da6'')]
   \<and> ctx_log_fields (req_Context (snd (fst (HTTPMiddleware example_route 0 example_traced_request
       (example_world example_JaegerTracer 200))))) = [(''correlation_id'', ''4bf92f3577b34da6'')]
   \<and> snd (fst (Middleware example_route 0 example_traced_request
       (example_world example_JaegerTracer 200)))
     \<noteq> snd (fst (HTTPMiddleware example_route 0 example_traced_request
       (example_world example_JaegerTracer 200)))"
proof -
  have M: "ctx_log_fields (req_Context (snd (fst (Middleware example_route 0 example_traced_request
       (example_world example_JaegerTracer 200))))) = [(''trace_id'', ''4bf92f3577b34da6'')]"
    by (simp add: Middleware_request jaeger_TraceID_new_span http_span_def)
       (simp add: example_world_def example_traced_request_def example_JaegerTracer_def Background_def)
  have H: "ctx_log_fields (req_Context (snd (fst (HTTPMiddleware example_route 0 example_traced_request
       (example_world example_JaegerTracer 200))))) = [(''correlation_id'', ''4bf92f3577b34da6'')]"
    by (simp add: HTTPMiddleware_request jaeger_TraceID_new_span http_span_def)
       (simp add: example_world_def example_traced_request_def example_JaegerTracer_def Background_def)
  from M H show ?thesis by auto
qed

text \<open>
  C9, amended. For every request, status recorder and world the two adapters leave the
  same world (hence the same span: same name, same start options, same \<open>http.method\<close> and
  \<open>http.url\<close> tags, and the same log entries), return the same finish function, and
  return the request with the same active span and the same trace-identifier value
  appended to the logging fields; the name of that field is \<open>trace_id\<close> in \<open>Middleware\<close>
  and \<open>correlation_id\<close> in \<open>HTTPMiddleware\<close>.
\<close>

theorem adapters_agree_except_log_field_name:
  "snd (Middleware f sr r w) = snd (HTTPMiddleware f sr r w)
   \<and> spans (snd (Middleware f sr r w)) = spans w @ [http_span f r w]
   \<and> fst (fst (Middleware f sr r w)) = fst (fst (HTTPMiddleware f sr r w))
   \<and> snd (fst (Middleware f sr r w)) =
       r\<lparr>req_Context :=
           \<lparr>ctx_span = Some (length (spans w)),
            ctx_log_fields = ctx_log_fields (req_Context r) @
              (case jaeger_TraceID (length (spans w)) (snd (Middleware f sr r w)) of
                 Some tid \<Rightarrow> [(''trace_id'', tid)] | None \<Rightarrow> [])\<rparr>\<rparr>
   \<and> snd (fst (HTTPMiddleware f sr r w)) =
       r\<lparr>req_Context :=
           \<lparr>ctx_span = Some (length (spans w)),
            ctx_log_fields = ctx_log_fields (req_Context r) @
              (case jaeger_TraceID (length (spans w)) (snd (HTTPMiddleware f sr r w)) of
                 Some tid \<Rightarrow> [(''correlation_id'', tid)] | None \<Rightarrow> [])\<rparr>\<rparr>"
proof -
  have W: "snd (Middleware f sr r w) = snd (HTTPMiddleware f sr r w)"
    by (rule Middleware_world_eq)
  have F: "fst (fst (Middleware f sr r w)) = fst (fst (HTTPMiddleware f sr r w))"
    by (simp add: Middleware_returns_finish HTTPMiddleware_returns_finish finish_eq)
  show ?thesis
    using W F Middleware_spans [of f sr r w] Middleware_request [of f sr r w]
      HTTPMiddleware_request [of f sr r w]
    by simp
qed

section \<open>SQL adapter\<close>

text \<open>
  C2. \<open>SQLMiddleware\<close> starts exactly one span; its name is \<open>db_\<close> followed by the query
  name when the query name is not empty, and \<open>db\<close> when it is empty.
\<close>

theorem SQLMiddleware_span_name:
  "(queryName \<noteq> [] \<longrightarrow>
      operationName (spans (snd (SQLMiddleware ctx queryName query args w)) ! length (spans w))
        = ''db_'' @ queryName)
   \<and> (queryName = [] \<longrightarrow>
      operationName (spans (snd (SQLMiddleware ctx queryName query args w)) ! length (spans w))
        = ''db'')
   \<and> length (spans (snd (SQLMiddleware ctx queryName query args w))) = Suc (length (spans w))"
  by (simp add: SQLMiddleware_spans)

theorem SQLMiddleware_span_name_witness:
  "''fetch_user'' \<noteq> []
   \<and> operationName
       (spans (snd (SQLMiddleware Background ''fetch_user'' ''SELECT * FROM users WHERE id = ?''
                      [42::int] (example_world NoopTracer 200))) ! 0)
     = ''db_fetch_user''"
  using SQLMiddleware_span_name [of "''fetch_user''" Background
      "''SELECT * FROM users WHERE id = ?''" "[42::int]" "example_world NoopTracer 200"]
  by (simp add: example_world_def)

text \<open>
  C3. The end-function returned by \<open>SQLMiddleware\<close>, invoked in any world \<open>w2\<close> in which
  the span still exists: with a non-nil query error it calls \<open>SetTag "error" true\<close> and
  then \<open>Finish\<close> on the span; with a nil query error its only call on the span is
  \<open>Finish\<close>, so the error tag is not set.
\<close>

theorem SQL_end_tags_error:
  assumes "length (spans w) < length (spans w2)"
  shows "(queryErr \<noteq> None \<longrightarrow>
            span_calls (spans (snd (fst (snd (fst (SQLMiddleware ctx queryName query args w)))
                                     ctx2 queryName2 query2 queryErr args2 w2)) ! length (spans w))
              = span_calls (spans w2 ! length (spans w)) @ [SetTag ''error'' (TagBool True), Finish])
       \<and> (queryErr = None \<longrightarrow>
            span_calls (spans (snd (fst (snd (fst (SQLMiddleware ctx queryName query args w)))
                                     ctx2 queryName2 query2 queryErr args2 w2)) ! length (spans w))
              = span_calls (spans w2 ! length (spans w)) @ [Finish])"
  using assms by (simp add: SQLMiddleware_returns_end mwEnd_calls)

theorem SQL_end_tags_error_witness:
  "length (spans (example_world NoopTracer 200))
     < length (spans (snd (SQLMiddleware Background ''fetch_user''
                             ''SELECT * FROM users WHERE id = ?'' [42::int] (example_world NoopTracer 200))))
   \<and> Some ''connection refused'' \<noteq> None
   \<and> span_calls
       (spans (snd (fst (snd (fst (SQLMiddleware Background ''fetch_user''
                                     ''SELECT * FROM users WHERE id = ?'' [42::int]
                                     (example_world NoopTracer 200))))
                     Background ''fetch_user'' ''SELECT * FROM users WHERE id = ?''
                     (Some ''connection refused'') [42::int]
                     (snd (SQLMiddleware Background ''fetch_user''
                             ''SELECT * FROM users WHERE id = ?'' [42::int]
                             (example_world NoopTracer 200))))) ! 0)
     = [SetTag ''component'' (TagString ''tracing''), SetTag ''db.type'' (TagString ''sql''),
        SetTag ''db.statement'' (TagString ''SELECT * FROM users WHERE id = ?''),
        SetTag ''error'' (TagBool True), Finish]"
  using SQL_end_tags_error [of "example_world NoopTracer 200"
      "snd (SQLMiddleware Background ''fetch_user'' ''SELECT * FROM users WHERE id = ?'' [42::int]
              (example_world NoopTracer 200))"
      "Some ''connection refused''" Background "''fetch_user''"
      "''SELECT * FROM users WHERE id = ?''" "[42::int]" Background "''fetch_user''"
      "''SELECT * FROM users WHERE id = ?''" "[42::int]"]
  by (simp add: SQLMiddleware_spans example_world_def)

text \<open>
  C6 as stated fails for a repeated invocation: the end-function has no guard, so
  invoking it a second time, now with a query error, leaves the span with two \<open>Finish\<close>
  calls and an error tag set after the first of them.
\<close>

theorem SQL_end_invoked_twice_finishes_twice:
  "span_calls
     (spans (snd (fst (snd (fst (SQLMiddleware Background ''fetch_user''
                                   ''SELECT * FROM users WHERE id = ?'' [42::int]
                                   (example_world NoopTracer 200))))
                   Background ''fetch_user'' ''SELECT * FROM users WHERE id = ?''
                   (Some ''connection refused'') [42::int]
                   (snd (fst (snd (fst (SQLMiddleware Background ''fetch_user''
                                          ''SELECT * FROM users WHERE id = ?'' [42::int]
                                          (example_world NoopTracer 200))))
                          Background ''fetch_user'' ''SELECT * FROM users WHERE id = ?''
                          None [42::int]
                          (snd (SQLMiddleware Background ''fetch_user''
                                  ''SELECT * FROM users WHERE id = ?'' [42::int]
                                  (example_world NoopTracer 200))))))) ! 0)
   = [SetTag ''component'' (TagString ''tracing''), SetTag ''db.type'' (TagString ''sql''),
      SetTag ''db.statement'' (TagString ''SELECT * FROM users WHERE id = ?''),
      Finish, SetTag ''error'' (TagBool True), Finish]"
  by (simp add: SQLMiddleware_returns_end mwEnd_calls SQLMiddleware_spans example_world_def)

text \<open>
  C6, amended. Every invocation of the end-function finishes the span exactly once: in
  any world \<open>w2\<close> in which the span still exists, and whether or not setting the error
  tag panics, the number of \<open>Finish\<close> calls on the span grows by one, \<open>Finish\<close> is the
  last call (so the error tag set by the invocation comes before it), and the earlier
  calls are kept. The invocation panics exactly when there is a query error and setting
  the error tag panics; the deferred \<open>Finish\<close> has run by then all the same. The
  end-function \<open>SQLMiddleware\<close> returns is this closure for a span that never panics.
  On its first invocation, on the world \<open>SQLMiddleware\<close> left, the span is finished once
  in all, by its last call, and every tag mutation comes before the finish.
\<close>

theorem SQL_end_finishes_once_per_invocation:
  "(length (spans w) < length (spans w2) \<longrightarrow>
      count_list (span_calls (spans (snd (mwEnd_or_panic panics (length (spans w))
                     ctx2 queryName2 query2 queryErr args2 w2)) ! length (spans w))) Finish
        = Suc (count_list (span_calls (spans w2 ! length (spans w))) Finish)
      \<and> last (span_calls (spans (snd (mwEnd_or_panic panics (length (spans w))
                     ctx2 queryName2 query2 queryErr args2 w2)) ! length (spans w))) = Finish
      \<and> take (length (span_calls (spans w2 ! length (spans w))))
           (span_calls (spans (snd (mwEnd_or_panic panics (length (spans w))
                     ctx2 queryName2 query2 queryErr args2 w2)) ! length (spans w)))
        = span_calls (spans w2 ! length (spans w)))
   \<and> fst (mwEnd_or_panic panics (length (spans w)) ctx2 queryName2 query2 queryErr args2 w2)
       = (if queryErr \<noteq> None \<and> panics ''error'' (TagBool True) then Panicked
          else Returned (ctx2, None))
   \<and> mwEnd_or_panic (\<lambda>k v. False) (length (spans w)) ctx2 queryName2 query2 queryErr args2 w2
       = (Returned (fst (fst (snd (fst (SQLMiddleware ctx queryName query args w)))
                          ctx2 queryName2 query2 queryErr args2 w2)),
          snd (fst (snd (fst (SQLMiddleware ctx queryName query args w)))
                 ctx2 queryName2 query2 queryErr args2 w2))
   \<and> count_list (span_calls (spans (snd (mwEnd_or_panic panics (length (spans w))
                     ctx2 queryName2 query2 queryErr args2
                     (snd (SQLMiddleware ctx queryName query args w)))) ! length (spans w))) Finish = 1
   \<and> last (span_calls (spans (snd (mwEnd_or_panic panics (length (spans w))
                     ctx2 queryName2 query2 queryErr args2
                     (snd (SQLMiddleware ctx queryName query args w)))) ! length (spans w))) = Finish
   \<and> Finish \<notin> set (butlast (span_calls (spans (snd (mwEnd_or_panic panics (length (spans w))
                     ctx2 queryName2 query2 queryErr args2
                     (snd (SQLMiddleware ctx queryName query args w)))) ! length (spans w))))"
  by (simp add: SQLMiddleware_returns_end mwEnd_or_panic_calls mwEnd_or_panic_outcome
      mwEnd_or_panic_never SQLMiddleware_spans butlast_append)

theorem SQL_end_finishes_once_per_invocation_witness:
  "length (spans (example_world NoopTracer 200))
     < length (spans (snd (SQLMiddleware Background ''fetch_user''
                             ''SELECT * FROM users WHERE id = ?'' [42::int]
                             (example_world NoopTracer 200))))
   \<and> fst (mwEnd_or_panic (\<lambda>k v. True) 0 Background ''fetch_user''
            ''SELECT * FROM users WHERE id = ?'' (Some ''connection refused'') [42::int]
            (snd (SQLMiddleware Background ''fetch_user''
                    ''SELECT * FROM users WHERE id = ?'' [42::int]
                    (example_world NoopTracer 200)))) = Panicked
   \<and> span_calls
       (spans (snd (mwEnd_or_panic (\<lambda>k v. True) 0 Background ''fetch_user''
                      ''SELECT * FROM users WHERE id = ?'' (Some ''connection refused'') [42::int]
                      (snd (SQLMiddleware Background ''fetch_user''
                              ''SELECT * FROM users WHERE id = ?'' [42::int]
                              (example_world NoopTracer 200))))) ! 0)
     = [SetTag ''component'' (TagString ''tracing''), SetTag ''db.type'' (TagString ''sql''),
        SetTag ''db.statement'' (TagString ''SELECT * FROM users WHERE id = ?''), Finish]"
  using SQL_end_finishes_once_per_invocation [of "example_world NoopTracer 200"
      "snd (SQLMiddleware Background ''fetch_user'' ''SELECT * FROM users WHERE id = ?'' [42::int]
              (example_world NoopTracer 200))"
      "\<lambda>k v. True" Background "''fetch_user''" "''SELECT * FROM users WHERE id = ?''"
      "Some ''connection refused''" "[42::int]"
      Background "''fetch_user''" "''SELECT * FROM users WHERE id = ?''" "[42::int]"]
  by (simp add: SQLMiddleware_spans mwEnd_or_panic_calls mwEnd_or_panic_outcome example_world_def)

text \<open>
  C7. The third result of \<open>SQLMiddleware\<close> is the nil error; the end-function it returns
  yields the context it was given, unchanged, and the nil error, whatever its other
  arguments and the world it runs in.
\<close>

theorem SQL_end_returns_given_context:
  "snd (snd (fst (SQLMiddleware ctx queryName query args w))) = None
   \<and> fst (fst (snd (fst (SQLMiddleware ctx queryName query args w)))
             ctx2 queryName2 query2 queryErr args2 w2) = (ctx2, None)"
  by (simp add: SQLMiddleware_def StartSpanFromContext_def span_SetTag_def mwEnd_def Let_def split_def)

section \<open>Tracer configuration\<close>

text \<open>
  C8. \<open>ConfigureTracer\<close> calls \<open>NewTracer\<close> once, on the configuration it has built. In
  that configuration the sampler type is \<open>jaeger.SamplerTypeConst\<close> when \<open>SamplerType\<close> is
  the empty string; for a non-empty \<open>SamplerType\<close> it is the given value, and the sampler
  parameter is \<open>SamplerParam\<close>.
\<close>

theorem ConfigureTracer_sampler:
  "NewTracer_calls (snd (ConfigureTracer NewTracer c w)) = NewTracer_calls w @ [jaegerConfig c]
   \<and> (SamplerType c = [] \<longrightarrow> sampler_Type (Sampler (jaegerConfig c)) = SamplerTypeConst)
   \<and> (SamplerType c \<noteq> [] \<longrightarrow>
        sampler_Type (Sampler (jaegerConfig c)) = SamplerType c
        \<and> sampler_Param (Sampler (jaegerConfig c)) = SamplerParam c)"
  by (simp add: ConfigureTracer_calls_NewTracer jaegerConfig_def Let_def)

theorem ConfigureTracer_sampler_witness:
  "SamplerType example_Config = []
   \<and> sampler_Type (Sampler (last (NewTracer_calls
        (snd (ConfigureTracer example_NewTracer_ok example_Config (example_world NoopTracer 200))))))
     = ''const''"
  using ConfigureTracer_sampler [of example_NewTracer_ok example_Config "example_world NoopTracer 200"]
  by (simp add: example_Config_def SamplerTypeConst_def)

text \<open>
  C4 as stated fails on the release handle: when construction fails the function
  returns \<open>nil\<close>, and invoking \<open>Close\<close> on a nil \<open>io.Closer\<close> panics.
\<close>

theorem ConfigureTracer_failure_nil_closer_panics:
  "nt_err (example_NewTracer_fails (jaegerConfig example_Config)) = Some ''no service name provided''
   \<and> fst (ConfigureTracer example_NewTracer_fails example_Config (example_world NoopTracer 200)) = None
   \<and> Closer_Close (fst (ConfigureTracer example_NewTracer_fails example_Config
                           (example_world NoopTracer 200))) = Inl NilPointerDereference"
  by (simp add: ConfigureTracer_failure example_NewTracer_fails_def)

text \<open>
  C4, amended. For every configuration on which tracer construction fails,
  \<open>ConfigureTracer\<close> returns normally, logs the error once at error severity on the
  logger named \<open>jaeger\<close>, and returns the nil release handle; that handle is not a no-op
  closer, and release must not be invoked on it.
\<close>

theorem ConfigureTracer_failure_logs_returns_nil:
  assumes "nt_err (NewTracer (jaegerConfig c)) = Some err"
  shows "fst (ConfigureTracer NewTracer c w) = None
       \<and> log_entries (snd (ConfigureTracer NewTracer c w)) =
           log_entries w @
           [\<lparr>log_level = ErrorLevel, log_name = ''jaeger'',
             log_msg = ''Couldn't initialize Jaeger tracer'',
             log_fields = [(''error'', err)]\<rparr>]
       \<and> Closer_Close (fst (ConfigureTracer NewTracer c w)) = Inl NilPointerDereference"
  using assms by (simp add: ConfigureTracer_failure)

theorem ConfigureTracer_failure_logs_returns_nil_witness:
  "nt_err (example_NewTracer_fails (jaegerConfig example_Config)) = Some ''no service name provided''
   \<and> fst (ConfigureTracer example_NewTracer_fails example_Config (example_world NoopTracer 200)) = None
   \<and> log_entries (snd (ConfigureTracer example_NewTracer_fails example_Config
                          (example_world NoopTracer 200))) =
       [\<lparr>log_level = ErrorLevel, log_name = ''jaeger'',
         log_msg = ''Couldn't initialize Jaeger tracer'',
         log_fields = [(''error'', ''no service name provided'')]\<rparr>]"
  using ConfigureTracer_failure_logs_returns_nil [of example_NewTracer_fails example_Config
      "''no service name provided''" "example_world NoopTracer 200"]
  by (simp add: example_NewTracer_fails_def example_world_def)

text \<open>
  C10. When construction fails the process-wide tracer is left as it was and
  \<open>SetGlobalTracer\<close> is not called; when it succeeds the constructed tracer is installed
  by one call of \<open>SetGlobalTracer\<close>.
\<close>

theorem ConfigureTracer_installs_iff_success:
  "(nt_err (NewTracer (jaegerConfig c)) \<noteq> None \<longrightarrow>
      global_tracer (snd (ConfigureTracer NewTracer c w)) = global_tracer w
      \<and> SetGlobalTracer_calls (snd (ConfigureTracer NewTracer c w)) = SetGlobalTracer_calls w)
   \<and> (nt_err (NewTracer (jaegerConfig c)) = None \<longrightarrow>
      global_tracer (snd (ConfigureTracer NewTracer c w)) = nt_tracer (NewTracer (jaegerConfig c))
      \<and> SetGlobalTracer_calls (snd (ConfigureTracer NewTracer c w)) = Suc (SetGlobalTracer_calls w))"
  by (auto simp add: ConfigureTracer_failure ConfigureTracer_success)

theorem ConfigureTracer_installs_iff_success_witness:
  "nt_err (example_NewTracer_fails (jaegerConfig example_Config)) \<noteq> None
   \<and> SetGlobalTracer_calls (snd (ConfigureTracer example_NewTracer_fails example_Config
                                    (example_world NoopTracer 200))) = 0
   \<and> Extract (global_tracer (snd (ConfigureTracer example_NewTracer_fails example_Config
                                    (example_world NoopTracer 200)))) [] = Extract NoopTracer []"
  using ConfigureTracer_installs_iff_success [of example_NewTracer_fails example_Config
      "example_world NoopTracer 200"]
  by (simp add: example_NewTracer_fails_def example_world_def)

end
